theory Spec2Isabelle
  imports Complex_Main "HOL-Library.AList"
begin

section \<open>The Human Detection node: worker supervision\<close>

text \<open>
  The development embeds the \<^verbatim>\<open>HumanDetection\<close> node (the module that spawns
  \<^verbatim>\<open>detect_human.py\<close>): its three closure variables \<^verbatim>\<open>pythonProcess\<close>,
  \<^verbatim>\<open>waitingNode\<close> and \<^verbatim>\<open>timeoutId\<close>, the functions \<^verbatim>\<open>cleanup\<close> and
  \<^verbatim>\<open>timeoutHandler\<close>, and the handlers bound with \<^verbatim>\<open>node.on\<close> and
  \<^verbatim>\<open>pythonProcess.on\<close>. The source is the second module of
  \<^verbatim>\<open>getAppointment/getAppointment.js\<close>, after the appointment lookup. Node.js delivers
  every callback serially, so a run of the node is a list of events, each handled to
  completion by one handler.
\<close>

subsection \<open>JavaScript values and the coercions the node applies\<close>

text \<open>
  Values of the configuration, of a message and of a parsed line. A finite Number is the
  rational that the double stands for (the two zeros are one), \<open>JInf True\<close> and
  \<open>JInf False\<close> are the two infinities and \<open>JNaN\<close> is NaN. The same three forms make
  the type \<open>number\<close>, for the result of a conversion to a Number.
\<close>

datatype jsval =
    JUndefined
  | JNull
  | JBool bool
  | JNum rat
  | JInf bool
  | JNaN
  | JStr string
  | JArr "jsval list"
  | JObj "(string \<times> jsval) list"

datatype number = NFin rat | NInf bool | NNaN

fun of_number :: "number \<Rightarrow> jsval" where
  "of_number (NFin r) = JNum r"
| "of_number (NInf b) = JInf b"
| "of_number NNaN = JNaN"

text \<open>A Node-RED message: the own properties of the object, in order.\<close>

type_synonym msg = "(string \<times> jsval) list"

text \<open>
  Built-ins of the JavaScript runtime that the node calls and this repository does not
  define. They are parameters of the model:
  \<^item> \<open>JSON_parse\<close> is \<^verbatim>\<open>JSON.parse\<close>; \<open>None\<close> is the thrown SyntaxError;
  \<^item> \<open>StringToNumber\<close> is the conversion of a string to a Number;
  \<^item> \<open>ArrayToString\<close> is \<^verbatim>\<open>Array.prototype.toString\<close>, the primitive of an array;
    \<open>None\<close> is the TypeError thrown when an element has no primitive;
  \<^item> \<open>RoundDouble\<close> rounds a real to the nearest double, an infinity on overflow: the
    quotient and the product of two doubles are the rounded exact ones.
\<close>

record js_builtins =
  JSON_parse :: "string \<Rightarrow> jsval option"
  StringToNumber :: "string \<Rightarrow> number"
  ArrayToString :: "jsval list \<Rightarrow> string option"
  RoundDouble :: "rat \<Rightarrow> number"

text \<open>The truthiness test of \<^verbatim>\<open>if (v)\<close>, \<^verbatim>\<open>!v\<close> and \<^verbatim>\<open>v || d\<close>.\<close>

fun truthy :: "jsval \<Rightarrow> bool" where
  "truthy JUndefined = False"
| "truthy JNull = False"
| "truthy (JBool b) = b"
| "truthy (JNum r) = (r \<noteq> 0)"
| "truthy (JInf b) = True"
| "truthy JNaN = False"
| "truthy (JStr s) = (s \<noteq> [])"
| "truthy (JArr xs) = True"
| "truthy (JObj kvs) = True"

text \<open>\<^verbatim>\<open>a || b\<close>.\<close>

definition js_or :: "jsval \<Rightarrow> jsval \<Rightarrow> jsval" where
  "js_or a b = (if truthy a then a else b)"

text \<open>
  ToNumber; \<open>None\<close> is a thrown TypeError. An object is converted through its
  primitive: \<^verbatim>\<open>valueOf\<close> gives the object back, and \<^verbatim>\<open>toString\<close> gives
  \<^verbatim>\<open>[object Object]\<close>, which is not numeric, unless the object has an own property
  \<open>toString\<close>, which in a parsed or configured value is not callable: then there is no
  primitive and the conversion throws.
\<close>

fun ToNumber :: "js_builtins \<Rightarrow> jsval \<Rightarrow> number option" where
  "ToNumber rt JUndefined = Some NNaN"
| "ToNumber rt JNull = Some (NFin 0)"
| "ToNumber rt (JBool b) = Some (NFin (if b then 1 else 0))"
| "ToNumber rt (JNum r) = Some (NFin r)"
| "ToNumber rt (JInf b) = Some (NInf b)"
| "ToNumber rt JNaN = Some NNaN"
| "ToNumber rt (JStr s) = Some (StringToNumber rt s)"
| "ToNumber rt (JArr xs) = map_option (StringToNumber rt) (ArrayToString rt xs)"
| "ToNumber rt (JObj kvs) = (if map_of kvs ''toString'' = None then Some NNaN else None)"

text \<open>\<^verbatim>\<open>v > 0\<close>: false when \<open>v\<close> converts to NaN; \<open>None\<close> when the conversion throws.\<close>

definition js_gt0 :: "js_builtins \<Rightarrow> jsval \<Rightarrow> bool option" where
  "js_gt0 rt v =
     (case ToNumber rt v of
        None \<Rightarrow> None
      | Some (NFin r) \<Rightarrow> Some (0 < r)
      | Some (NInf b) \<Rightarrow> Some b
      | Some NNaN \<Rightarrow> Some False)"

text \<open>
  \<^verbatim>\<open>v / d\<close> and \<^verbatim>\<open>v * d\<close> for a positive numeric literal \<open>d\<close> (100 and 1000 in the
  node, both doubles): the exact result rounded to a double; \<open>None\<close> when the conversion
  of \<open>v\<close> throws.
\<close>

definition js_div :: "js_builtins \<Rightarrow> jsval \<Rightarrow> rat \<Rightarrow> jsval option" where
  "js_div rt v d =
     (case ToNumber rt v of
        None \<Rightarrow> None
      | Some (NFin r) \<Rightarrow> Some (of_number (RoundDouble rt (r / d)))
      | Some (NInf b) \<Rightarrow> Some (JInf b)
      | Some NNaN \<Rightarrow> Some JNaN)"

definition js_mul :: "js_builtins \<Rightarrow> jsval \<Rightarrow> rat \<Rightarrow> jsval option" where
  "js_mul rt v d =
     (case ToNumber rt v of
        None \<Rightarrow> None
      | Some (NFin r) \<Rightarrow> Some (of_number (RoundDouble rt (r * d)))
      | Some (NInf b) \<Rightarrow> Some (JInf b)
      | Some NNaN \<Rightarrow> Some JNaN)"

text \<open>
  \<^verbatim>\<open>result.name\<close> for the property names the node reads (\<open>error\<close>, \<open>status\<close>,
  \<open>count\<close>, \<open>humans\<close>, \<open>timestamp\<close>), none of which a prototype defines: the own
  property of an object, \<open>undefined\<close> on every other value. On \<open>null\<close> the access
  throws; the caller tests for it first.
\<close>

fun property :: "jsval \<Rightarrow> string \<Rightarrow> jsval" where
  "property (JObj kvs) k = (case map_of kvs k of None \<Rightarrow> JUndefined | Some v \<Rightarrow> v)"
| "property v k = JUndefined"

subsection \<open>Strings: \<^verbatim>\<open>split('\n')\<close> and \<^verbatim>\<open>trim()\<close>\<close>

definition NL :: char where
  "NL = CHR 0x0A"

text \<open>
  \<^verbatim>\<open>s.split('\n')\<close>: the fragments between newlines, never an empty array (the empty
  string splits into one empty fragment).
\<close>

fun split_nl :: "string \<Rightarrow> string list" where
  "split_nl [] = [[]]"
| "split_nl (c # cs) =
     (if c = NL then [] # split_nl cs
      else (case split_nl cs of
              [] \<Rightarrow> [[c]]
            | l # ls \<Rightarrow> (c # l) # ls))"

text \<open>White space and line terminators that \<^verbatim>\<open>trim\<close> strips, among the code units below 256.\<close>

definition is_ws :: "char \<Rightarrow> bool" where
  "is_ws c = (c \<in> {CHR 0x09, CHR 0x0A, CHR 0x0B, CHR 0x0C, CHR 0x0D, CHR 0x20, CHR 0xA0})"

definition trim :: "string \<Rightarrow> string" where
  "trim s = rev (dropWhile is_ws (rev (dropWhile is_ws s)))"

subsection \<open>Configuration, effects and state\<close>

text \<open>The \<^verbatim>\<open>config\<close> object of the node; an absent property is \<open>JUndefined\<close>.\<close>

record config =
  cfg_method :: jsval
  cfg_confidence :: jsval
  cfg_camera :: jsval
  cfg_visualFeedback :: jsval
  cfg_detectEmotion :: jsval
  cfg_timeout :: jsval

text \<open>
  What the module reads from its surroundings: the two paths that \<^verbatim>\<open>path.join\<close>
  computes from \<^verbatim>\<open>__dirname\<close> (\<open>scriptPath\<close> for \<^verbatim>\<open>detect_human.py\<close>,
  \<open>venvPython\<close> for \<^verbatim>\<open>venv/bin/python3\<close>), whether \<^verbatim>\<open>fs.existsSync\<close> finds the
  second, and whether \<^verbatim>\<open>EventPubSub\<close> could be loaded.
\<close>

record env =
  scriptPath :: string
  venvPython :: string
  venv_exists :: bool
  events_available :: bool

text \<open>The argument of \<^verbatim>\<open>node.status\<close>: \<open>StIdle\<close> is the empty object.\<close>

datatype status = StIdle | StDetecting | StReady | StDetected jsval | StError

text \<open>
  The argument of \<^verbatim>\<open>node.error\<close>, by the place that reports it: the \<open>error\<close> property
  of a line, the exit code, the message of the \<open>error\<close> event, the message of the
  exception that \<^verbatim>\<open>spawn\<close> threw.
\<close>

datatype error_report =
    WorkerError jsval
  | ExitCode int
  | StartFailure string
  | SpawnError string

text \<open>
  The calls that leave the node, in the order made. \<open>Send a b\<close> is
  \<^verbatim>\<open>node.send([a, b])\<close>, \<open>None\<close> being \<open>null\<close>: the first slot is output 1 (success),
  the second output 2 (timeout). \<open>Uncaught\<close> is a TypeError that leaves a handler, which
  ends there.
\<close>

datatype effect =
    Send "msg option" "msg option"
  | NodeError error_report
  | NodeLog string
  | NodeWarn string
  | Status status
  | Kill nat
  | ClearTimeout nat
  | SetTimeout nat jsval
  | Spawn nat string "jsval list"
  | Done
  | Uncaught

text \<open>
  The state: the three closure variables; for every child whose handlers are bound, the
  \<open>dataBuffer\<close> of its \<^verbatim>\<open>stdout\<close> handler (one variable per call of
  \<^verbatim>\<open>spawn\<close>); the timers that are armed and have neither fired nor been cleared; the
  next fresh child and timer handles; and the effects so far.
\<close>

record state =
  pythonProcess :: "nat option"
  waitingNode :: "msg option"
  timeoutId :: "nat option"
  dataBuffer :: "nat \<Rightarrow> string option"
  timers :: "nat set"
  nextPid :: nat
  nextTimer :: nat
  trace :: "effect list"

definition init :: state where
  "init = \<lparr>pythonProcess = None, waitingNode = None, timeoutId = None,
           dataBuffer = (\<lambda>p. None), timers = {}, nextPid = 0, nextTimer = 0, trace = []\<rparr>"

definition emit :: "effect \<Rightarrow> state \<Rightarrow> state" where
  "emit e s = s\<lparr>trace := trace s @ [e]\<rparr>"

definition node_status :: "status \<Rightarrow> state \<Rightarrow> state" where
  "node_status st s = emit (Status st) s"

definition node_error :: "error_report \<Rightarrow> state \<Rightarrow> state" where
  "node_error r s = emit (NodeError r) s"

definition node_log :: "string \<Rightarrow> state \<Rightarrow> state" where
  "node_log l s = emit (NodeLog l) s"

definition node_warn :: "string \<Rightarrow> state \<Rightarrow> state" where
  "node_warn l s = emit (NodeWarn l) s"

definition node_send :: "msg option \<Rightarrow> msg option \<Rightarrow> state \<Rightarrow> state" where
  "node_send a b s = emit (Send a b) s"

text \<open>
  \<^verbatim>\<open>pythonProcess.kill()\<close> signals the child and returns; the handlers of the child
  stay bound. \<^verbatim>\<open>clearTimeout\<close> removes the timer, so that it never fires.
\<close>

definition kill :: "nat \<Rightarrow> state \<Rightarrow> state" where
  "kill p s = emit (Kill p) s"

definition clearTimeout :: "nat \<Rightarrow> state \<Rightarrow> state" where
  "clearTimeout t s = emit (ClearTimeout t) (s\<lparr>timers := timers s - {t}\<rparr>)"

text \<open>\<^verbatim>\<open>timeoutId = setTimeout(timeoutHandler, delay)\<close>.\<close>

definition setTimeout :: "jsval \<Rightarrow> state \<Rightarrow> state" where
  "setTimeout delay s =
     (let t = nextTimer s
      in emit (SetTimeout t delay)
           (s\<lparr>timeoutId := Some t, timers := insert t (timers s), nextTimer := Suc t\<rparr>))"

subsection \<open>\<^verbatim>\<open>cleanup\<close> and \<^verbatim>\<open>timeoutHandler\<close>\<close>

definition cleanup :: "state \<Rightarrow> state" where
  "cleanup s =
     (let s1 = (case pythonProcess s of
                  None \<Rightarrow> s
                | Some p \<Rightarrow> (kill p s)\<lparr>pythonProcess := None\<rparr>);
          s2 = (case timeoutId s1 of
                  None \<Rightarrow> s1
                | Some t \<Rightarrow> (clearTimeout t s1)\<lparr>timeoutId := None\<rparr>);
          s3 = s2\<lparr>waitingNode := None\<rparr>
      in node_status StIdle s3)"

text \<open>\<^verbatim>\<open>RED._("humanDetection.timeoutOutput")\<close>: the fixed text, named by its catalogue key.\<close>

definition timeoutOutput :: string where
  "timeoutOutput = ''humanDetection.timeoutOutput''"

definition timeout_msg :: msg where
  "timeout_msg = [(''payload'', JStr timeoutOutput)]"

definition timeoutHandler :: "state \<Rightarrow> state" where
  "timeoutHandler s =
     (case waitingNode s of
        None \<Rightarrow> s
      | Some w \<Rightarrow> cleanup (node_send None (Some timeout_msg) s))"

subsection \<open>The \<^verbatim>\<open>input\<close> handler\<close>

definition pythonCmd :: "env \<Rightarrow> string" where
  "pythonCmd ev = (if venv_exists ev then venvPython ev else ''python3'')"

text \<open>
  The array \<^verbatim>\<open>args\<close> with its two conditional pushes; \<open>None\<close> when the division
  throws, which happens before the \<^verbatim>\<open>try\<close>.
\<close>

definition build_args :: "js_builtins \<Rightarrow> config \<Rightarrow> env \<Rightarrow> jsval list option" where
  "build_args rt cfg ev =
     (case js_div rt (js_or (cfg_confidence cfg) (JNum 50)) 100 of
        None \<Rightarrow> None
      | Some c \<Rightarrow>
          Some ([JStr (scriptPath ev),
                 JStr ''--method'', js_or (cfg_method cfg) (JStr ''mobilenet''),
                 JStr ''--confidence'', c,
                 JStr ''--camera'', js_or (cfg_camera cfg) (JStr ''0'')]
                @ (if \<not> truthy (cfg_visualFeedback cfg) then [JStr ''--no-display''] else [])
                @ (if truthy (cfg_detectEmotion cfg) then [JStr ''--emotion''] else [])))"

text \<open>
  \<^verbatim>\<open>pythonProcess = spawn(pythonCmd, args)\<close> when it returns a child: the child gets a
  fresh handle, and its \<^verbatim>\<open>stdout\<close> handler a \<open>dataBuffer\<close> of its own, empty.
\<close>

definition spawn :: "string \<Rightarrow> jsval list \<Rightarrow> state \<Rightarrow> state" where
  "spawn cmd args s =
     (let p = nextPid s
      in emit (Spawn p cmd args)
           (s\<lparr>pythonProcess := Some p, dataBuffer := (dataBuffer s)(p \<mapsto> []),
              nextPid := Suc p\<rparr>))"

text \<open>The test \<^verbatim>\<open>config.timeout && config.timeout > 0\<close>; \<open>None\<close> when it throws.\<close>

definition timeout_enabled :: "js_builtins \<Rightarrow> config \<Rightarrow> bool option" where
  "timeout_enabled rt cfg =
     (if truthy (cfg_timeout cfg) then js_gt0 rt (cfg_timeout cfg) else Some False)"

definition uncaught :: "state \<Rightarrow> state" where
  "uncaught s = emit Uncaught s"

text \<open>
  The handler of \<^verbatim>\<open>node.on("input")\<close>. Whether \<^verbatim>\<open>spawn\<close> throws is decided outside
  the node, so the event says it: \<open>thrown = Some e\<close> is an exception with message \<open>e\<close>,
  caught by the handler before \<^verbatim>\<open>pythonProcess\<close> is assigned. A TypeError of a
  conversion of \<^verbatim>\<open>config.timeout\<close> or \<^verbatim>\<open>config.confidence\<close> is thrown outside the
  \<^verbatim>\<open>try\<close> and ends the handler where it stands.
\<close>

definition on_input :: "js_builtins \<Rightarrow> config \<Rightarrow> env \<Rightarrow> msg \<Rightarrow> string option \<Rightarrow> state \<Rightarrow> state" where
  "on_input rt cfg ev m thrown s =
     (let s1 = cleanup s;
          s2 = node_status StDetecting (s1\<lparr>waitingNode := Some m\<rparr>)
      in case timeout_enabled rt cfg of
           None \<Rightarrow> uncaught s2
         | Some enabled \<Rightarrow>
             (case (if enabled
                    then map_option (\<lambda>delay. setTimeout delay s2)
                           (js_mul rt (cfg_timeout cfg) 1000)
                    else Some s2) of
                None \<Rightarrow> uncaught s2
              | Some s3 \<Rightarrow>
                  (case build_args rt cfg ev of
                     None \<Rightarrow> uncaught s3
                   | Some args \<Rightarrow>
                       (case thrown of
                          None \<Rightarrow> spawn (pythonCmd ev) args s3
                        | Some e \<Rightarrow>
                            cleanup (node_status StError (node_error (SpawnError e) s3))))))"

subsection \<open>The handlers of the child\<close>

text \<open>
  \<^verbatim>\<open>Object.assign({}, waitingNode)\<close> with its \<open>payload\<close> set to
  \<^verbatim>\<open>{count, humans, timestamp}\<close> of the parsed line.
\<close>

definition detection_payload :: "jsval \<Rightarrow> jsval" where
  "detection_payload result =
     JObj [(''count'', property result ''count''),
           (''humans'', property result ''humans''),
           (''timestamp'', property result ''timestamp'')]"

definition outputMsg :: "msg \<Rightarrow> jsval \<Rightarrow> msg" where
  "outputMsg w result = AList.update ''payload'' (detection_payload result) w"

text \<open>
  The body of \<^verbatim>\<open>lines.forEach\<close>. The \<^verbatim>\<open>catch\<close> logs the line when
  \<^verbatim>\<open>JSON.parse\<close> throws, when the parsed value is \<open>null\<close>, on which
  \<^verbatim>\<open>result.error\<close> throws a TypeError, and when the comparison
  \<^verbatim>\<open>result.count > 0\<close> throws one; the comparison is made only for the status
  \<open>detected\<close>.
\<close>

definition process_line :: "js_builtins \<Rightarrow> string \<Rightarrow> state \<Rightarrow> state" where
  "process_line rt line s =
     (if trim line \<noteq> [] then
        (case JSON_parse rt line of
           None \<Rightarrow> node_log line s
         | Some result \<Rightarrow>
             if result = JNull \<or> result = JUndefined then node_log line s
             else if truthy (property result ''error'') then
               cleanup (node_status StError (node_error (WorkerError (property result ''error'')) s))
             else if property result ''status'' = JStr ''ready'' then
               node_status StReady s
             else if property result ''status'' = JStr ''detected'' then
               (case js_gt0 rt (property result ''count'') of
                  None \<Rightarrow> node_log line s
                | Some False \<Rightarrow> s
                | Some True \<Rightarrow>
                    (case waitingNode s of
                       None \<Rightarrow> s
                     | Some w \<Rightarrow>
                         cleanup (node_status (StDetected (property result ''count''))
                           (node_send (Some (outputMsg w result)) None s))))
             else s)
      else s)"

text \<open>
  The line demuxer of the \<^verbatim>\<open>stdout\<close> handler: the chunk is appended to the buffer,
  the buffer is split, \<^verbatim>\<open>lines.pop()\<close> is the new buffer and the rest are the lines.
\<close>

definition feed :: "string \<Rightarrow> string \<Rightarrow> string list \<times> string" where
  "feed buf chunk = (let lines = split_nl (buf @ chunk) in (butlast lines, last lines))"

definition on_stdout_data :: "js_builtins \<Rightarrow> nat \<Rightarrow> string \<Rightarrow> string \<Rightarrow> state \<Rightarrow> state" where
  "on_stdout_data rt p buf chunk s =
     (let (lines, rest) = feed buf chunk;
          s1 = s\<lparr>dataBuffer := (dataBuffer s)(p \<mapsto> rest)\<rparr>
      in fold (process_line rt) lines s1)"

definition on_stderr_data :: "string \<Rightarrow> state \<Rightarrow> state" where
  "on_stderr_data chunk s = node_warn (''Python error: '' @ chunk) s"

text \<open>The \<open>close\<close> handler; \<open>None\<close> is the code \<open>null\<close> of a child ended by a signal.\<close>

definition on_close :: "int option \<Rightarrow> state \<Rightarrow> state" where
  "on_close code s =
     (let s1 = (case code of
                  None \<Rightarrow> s
                | Some c \<Rightarrow>
                    if c \<noteq> 0 then node_status StError (node_error (ExitCode c) s) else s)
      in cleanup s1)"

definition on_error :: "string \<Rightarrow> state \<Rightarrow> state" where
  "on_error e s = cleanup (node_status StError (node_error (StartFailure e) s))"

text \<open>\<^verbatim>\<open>node.on("close")\<close> and the subscription to \<^verbatim>\<open>RESET_NODE_STATE\<close>.\<close>

definition on_node_close :: "state \<Rightarrow> state" where
  "on_node_close s = emit Done (cleanup s)"

definition on_reset :: "env \<Rightarrow> state \<Rightarrow> state" where
  "on_reset ev s = (if events_available ev then cleanup s else s)"

subsection \<open>Events and runs\<close>

text \<open>
  An event of a child reaches a handler only while the handlers of that child are bound:
  from its \<^verbatim>\<open>spawn\<close> to its \<open>close\<close> event, which is the last event of a child.
  Killing a child does not unbind them. A timer fires once, and only while it is armed.
\<close>

datatype event =
    Input msg "string option"
  | StdoutData nat string
  | StderrData nat string
  | ProcClose nat "int option"
  | ProcError nat string
  | TimerFire nat
  | NodeClose
  | ResetNodeState

fun step :: "js_builtins \<Rightarrow> config \<Rightarrow> env \<Rightarrow> event \<Rightarrow> state \<Rightarrow> state" where
  "step rt cfg ev (Input m thrown) s = on_input rt cfg ev m thrown s"
| "step rt cfg ev (StdoutData p chunk) s =
     (case dataBuffer s p of
        None \<Rightarrow> s
      | Some buf \<Rightarrow> on_stdout_data rt p buf chunk s)"
| "step rt cfg ev (StderrData p chunk) s =
     (case dataBuffer s p of
        None \<Rightarrow> s
      | Some buf \<Rightarrow> on_stderr_data chunk s)"
| "step rt cfg ev (ProcClose p code) s =
     (case dataBuffer s p of
        None \<Rightarrow> s
      | Some buf \<Rightarrow> (on_close code s)\<lparr>dataBuffer := (dataBuffer (on_close code s))(p := None)\<rparr>)"
| "step rt cfg ev (ProcError p e) s =
     (case dataBuffer s p of
        None \<Rightarrow> s
      | Some buf \<Rightarrow> on_error e s)"
| "step rt cfg ev (TimerFire t) s =
     (if t \<in> timers s then timeoutHandler (s\<lparr>timers := timers s - {t}\<rparr>) else s)"
| "step rt cfg ev NodeClose s = on_node_close s"
| "step rt cfg ev ResetNodeState s = on_reset ev s"

definition run :: "js_builtins \<Rightarrow> config \<Rightarrow> env \<Rightarrow> event list \<Rightarrow> state \<Rightarrow> state" where
  "run rt cfg ev evs s = fold (step rt cfg ev) evs s"

subsection \<open>What a run shows\<close>

text \<open>The effects a run adds to the trace between two of its states.\<close>

definition effects_since :: "state \<Rightarrow> state \<Rightarrow> effect list" where
  "effects_since s s' = drop (length (trace s)) (trace s')"

text \<open>An emission on output 1, on output 2; their number in a list of effects.\<close>

fun chan1 :: "effect \<Rightarrow> bool" where
  "chan1 (Send (Some m) b) = True"
| "chan1 e = False"

fun chan2 :: "effect \<Rightarrow> bool" where
  "chan2 (Send a (Some m)) = True"
| "chan2 e = False"

definition emissions :: "effect list \<Rightarrow> nat" where
  "emissions tr = length (filter chan1 tr) + length (filter chan2 tr)"

text \<open>
  The outcomes that the effects of a request carry: a message on output 1 is a success, one
  on output 2 a timeout, a call of \<^verbatim>\<open>node.error\<close> a failure. The first of them is the
  resolution of the request.
\<close>

datatype outcome = Success msg | Timeout | Failure error_report

fun outcome_of :: "effect \<Rightarrow> outcome option" where
  "outcome_of (Send (Some m) b) = Some (Success m)"
| "outcome_of (Send None (Some m)) = Some Timeout"
| "outcome_of (NodeError r) = Some (Failure r)"
| "outcome_of e = None"

fun outcomes :: "effect list \<Rightarrow> outcome list" where
  "outcomes [] = []"
| "outcomes (e # es) =
     (case outcome_of e of None \<Rightarrow> outcomes es | Some x \<Rightarrow> x # outcomes es)"

definition resolution :: "effect list \<Rightarrow> outcome option" where
  "resolution tr = (case outcomes tr of [] \<Rightarrow> None | x # xs \<Rightarrow> Some x)"

definition is_input :: "event \<Rightarrow> bool" where
  "is_input e = (case e of Input m thrown \<Rightarrow> True | _ \<Rightarrow> False)"

text \<open>
  The effects of one request: those of the trigger \<open>Input m thrown\<close> in state \<open>s\<close> and
  of the events \<open>evs\<close> that follow it.
\<close>

definition request_trace ::
  "js_builtins \<Rightarrow> config \<Rightarrow> env \<Rightarrow> state \<Rightarrow> msg \<Rightarrow> string option \<Rightarrow> event list \<Rightarrow> effect list" where
  "request_trace rt cfg ev s m thrown evs =
     effects_since s (run rt cfg ev (Input m thrown # evs) s)"

text \<open>The effects of \<^verbatim>\<open>cleanup\<close> in a state.\<close>

definition cleanup_effects :: "state \<Rightarrow> effect list" where
  "cleanup_effects s =
     (case pythonProcess s of None \<Rightarrow> [] | Some p \<Rightarrow> [Kill p])
     @ (case timeoutId s of None \<Rightarrow> [] | Some t \<Rightarrow> [ClearTimeout t])
     @ [Status StIdle]"

text \<open>
  The effects of a resolution: at most one emission, and none when the first outcome is a
  failure. A handler relates two states well when it only extends the trace and, with the
  request slot empty, leaves it empty and emits nothing; with the slot taken, either keeps
  it and adds no outcome, or empties it with the effects of a resolution.
\<close>

definition ok_resolution :: "effect list \<Rightarrow> bool" where
  "ok_resolution es =
     (emissions es \<le> 1 \<and> (\<forall>r. resolution es = Some (Failure r) \<longrightarrow> emissions es = 0))"

definition handler_ok :: "state \<Rightarrow> state \<Rightarrow> bool" where
  "handler_ok s s' =
     (\<exists>es. trace s' = trace s @ es \<and>
        (case waitingNode s of
           None \<Rightarrow> waitingNode s' = None \<and> emissions es = 0
         | Some w \<Rightarrow> (waitingNode s' = Some w \<and> outcomes es = [])
                     \<or> (waitingNode s' = None \<and> ok_resolution es)))"


subsection \<open>A concrete node\<close>

text \<open>
  An instance of the parameters, for evaluating runs: \<^verbatim>\<open>JSON.parse\<close> on the lines of the
  worker protocol that the runs below feed (any other line is taken as not JSON; the
  confidence 0.9 of a line is the double nearest to it), the conversion of the string
  \<open>0\<close> (any other string is taken as not numeric), the empty array as a string, and the
  rounding of the reals that the runs divide and multiply to, which are doubles already
  (0, 0.5, 0.75 and 2000). Then a configuration with a timeout of \<open>t\<close> seconds, and a
  trigger message.
\<close>

definition demo_parse :: "string \<Rightarrow> jsval option" where
  \<open>demo_parse l =
     (if l = ''{"status":"ready"}'' then Some (JObj [(''status'', JStr ''ready'')])
      else if l = ''{"status":"detected","count":1,"humans":[{"id":0,"bbox":{"x":10,"y":20,"width":30,"height":40},"confidence":0.9}],"timestamp":"2025-01-01T00:00:00Z"}''
        then Some (JObj [(''status'', JStr ''detected''), (''count'', JNum 1),
               (''humans'', JArr [JObj [(''id'', JNum 0),
                  (''bbox'', JObj [(''x'', JNum 10), (''y'', JNum 20),
                                   (''width'', JNum 30), (''height'', JNum 40)]),
                  (''confidence'', JNum (8106479329266893 / 9007199254740992))]]),
               (''timestamp'', JStr ''2025-01-01T00:00:00Z'')])
      else if l = ''{"status":"detected","count":0,"humans":[],"timestamp":"2025-01-01T00:00:00Z"}''
        then Some (JObj [(''status'', JStr ''detected''), (''count'', JNum 0),
               (''humans'', JArr []), (''timestamp'', JStr ''2025-01-01T00:00:00Z'')])
      else if l = ''{"error":"camera not found"}''
        then Some (JObj [(''error'', JStr ''camera not found'')])
      else if l = ''{"error":""}'' then Some (JObj [(''error'', JStr [])])
      else None)\<close>

definition demo_rt :: js_builtins where
  "demo_rt = \<lparr>JSON_parse = demo_parse,
               StringToNumber = (\<lambda>s. if s = ''0'' then NFin 0 else NNaN),
               ArrayToString = (\<lambda>xs. Some []),
               RoundDouble = NFin\<rparr>"

definition demo_cfg :: "rat \<Rightarrow> config" where
  "demo_cfg t = \<lparr>cfg_method = JStr ''hog'', cfg_confidence = JNum 75, cfg_camera = JStr ''0'',
      cfg_visualFeedback = JBool False, cfg_detectEmotion = JBool False, cfg_timeout = JNum t\<rparr>"

definition demo_env :: env where
  "demo_env = \<lparr>scriptPath = ''/node/detect_human.py'',
                venvPython = ''/node/venv/bin/python3'',
                venv_exists = False, events_available = False\<rparr>"

definition demo_msg :: msg where
  "demo_msg = [(''_msgid'', JStr ''a1''), (''payload'', JStr ''go'')]"

text \<open>The concrete node after a first trigger, with a timeout of two seconds.\<close>

definition demo_detecting :: state where
  "demo_detecting = step demo_rt (demo_cfg 2) demo_env (Input demo_msg None) init"

text \<open>A second trigger, and the concrete node after it superseded the first.\<close>

definition demo_msg2 :: msg where
  "demo_msg2 = [(''_msgid'', JStr ''b2''), (''payload'', JStr ''again'')]"

definition demo_superseded :: state where
  "demo_superseded =
     run demo_rt (demo_cfg 2) demo_env [Input demo_msg None, Input demo_msg2 None] init"

section \<open>Properties\<close>

subsection \<open>Traces and resolutions\<close>

lemma cleanup_eq:
  "cleanup s = s\<lparr>pythonProcess := None, waitingNode := None, timeoutId := None,
                 timers := timers s - set_option (timeoutId s),
                 trace := trace s @ cleanup_effects s\<rparr>"
  by (simp add: cleanup_def cleanup_effects_def kill_def clearTimeout_def emit_def
      node_status_def Let_def split: option.splits)

lemma emissions_append [simp]: "emissions (a @ b) = emissions a + emissions b"
  by (simp add: emissions_def)

lemma outcomes_append [simp]: "outcomes (a @ b) = outcomes a @ outcomes b"
  by (induction a) (auto split: option.splits)

lemma emissions_Nil [simp]: "emissions [] = 0"
  by (simp add: emissions_def)

lemma emissions_Cons [simp]:
  "emissions (e # es) = (if chan1 e then 1 else 0) + (if chan2 e then 1 else 0) + emissions es"
  by (simp add: emissions_def)

lemma outcomes_Nil_emissions: "outcomes tr = [] \<Longrightarrow> emissions tr = 0"
proof (induction tr)
  case Nil
  then show ?case by simp
next
  case (Cons e es)
  then show ?case
    by (cases e rule: outcome_of.cases) (auto split: option.splits)
qed

lemma cleanup_effects_quiet [simp]:
  "outcomes (cleanup_effects s) = []" "emissions (cleanup_effects s) = 0"
  by (auto simp: cleanup_effects_def split: option.splits)


lemma resolution_append:
  "resolution (a @ b) = (case resolution a of None \<Rightarrow> resolution b | Some x \<Rightarrow> Some x)"
  by (simp add: resolution_def split: list.splits)

lemma resolution_None_iff: "resolution a = None \<longleftrightarrow> outcomes a = []"
  by (simp add: resolution_def split: list.splits)

lemma handler_ok_refl: "handler_ok s s"
  by (auto simp: handler_ok_def split: option.splits)

lemma ok_resolution_quiet_right:
  "ok_resolution a \<Longrightarrow> emissions b = 0 \<Longrightarrow> ok_resolution (a @ b)"
  by (auto simp: ok_resolution_def resolution_append resolution_None_iff
      dest: outcomes_Nil_emissions split: option.splits)

lemma ok_resolution_quiet_left:
  assumes "outcomes a = []" and "ok_resolution b"
  shows "ok_resolution (a @ b)"
proof -
  have "resolution a = None" using assms(1) by (simp add: resolution_None_iff)
  then have "resolution (a @ b) = resolution b" by (simp add: resolution_append)
  moreover have "emissions a = 0" using assms(1) by (rule outcomes_Nil_emissions)
  ultimately show ?thesis using assms(2) by (simp add: ok_resolution_def)
qed

lemma handler_ok_trans:
  assumes "handler_ok s s'" and "handler_ok s' s''"
  shows "handler_ok s s''"
proof -
  from assms(1) obtain a where a: "trace s' = trace s @ a"
    and ca: "case waitingNode s of
           None \<Rightarrow> waitingNode s' = None \<and> emissions a = 0
         | Some w \<Rightarrow> (waitingNode s' = Some w \<and> outcomes a = [])
                     \<or> (waitingNode s' = None \<and> ok_resolution a)"
    by (auto simp: handler_ok_def)
  from assms(2) obtain b where b: "trace s'' = trace s' @ b"
    and cb: "case waitingNode s' of
           None \<Rightarrow> waitingNode s'' = None \<and> emissions b = 0
         | Some w \<Rightarrow> (waitingNode s'' = Some w \<and> outcomes b = [])
                     \<or> (waitingNode s'' = None \<and> ok_resolution b)"
    by (auto simp: handler_ok_def)
  have t: "trace s'' = trace s @ (a @ b)" using a b by simp
  show ?thesis
  proof (cases "waitingNode s")
    case None
    with ca cb t show ?thesis by (auto simp: handler_ok_def)
  next
    case (Some w)
    show ?thesis
    proof (cases "waitingNode s'")
      case None
      with Some ca cb have "ok_resolution a" "emissions b = 0" "waitingNode s'' = None"
        by auto
      then have "ok_resolution (a @ b)" by (simp add: ok_resolution_quiet_right)
      with Some t \<open>waitingNode s'' = None\<close> show ?thesis
        unfolding handler_ok_def by (intro exI[of _ "a @ b"]) simp
    next
      case (Some w')
      with \<open>waitingNode s = Some w\<close> ca have w': "w' = w" and qa: "outcomes a = []" by auto
      from Some cb consider "waitingNode s'' = Some w'" "outcomes b = []"
        | "waitingNode s'' = None" "ok_resolution b" by auto
      then show ?thesis
      proof cases
        case 1
        with qa w' t \<open>waitingNode s = Some w\<close> show ?thesis
          unfolding handler_ok_def by (intro exI[of _ "a @ b"]) simp
      next
        case 2
        then have "ok_resolution (a @ b)" using qa by (simp add: ok_resolution_quiet_left)
        with 2 t \<open>waitingNode s = Some w\<close> show ?thesis
          unfolding handler_ok_def by (intro exI[of _ "a @ b"]) simp
      qed
    qed
  qed
qed

lemma handler_ok_cleanup: "handler_ok s (cleanup s)"
  unfolding handler_ok_def
  by (intro exI[of _ "cleanup_effects s"])
     (auto simp: cleanup_eq ok_resolution_def resolution_def split: option.splits)

lemma handler_ok_timeoutHandler: "handler_ok s (timeoutHandler s)"
  unfolding handler_ok_def timeoutHandler_def
  by (cases "waitingNode s")
     (auto simp: cleanup_eq node_send_def emit_def ok_resolution_def resolution_def
        intro!: exI[of _ "Send None (Some timeout_msg) # cleanup_effects s"]
        simp: cleanup_effects_def split: option.splits)


lemma handler_ok_emit_quiet:
  "outcome_of e = None \<Longrightarrow> handler_ok s (emit e s)"
  unfolding handler_ok_def emit_def
  by (intro exI[of _ "[e]"]) (cases e rule: outcome_of.cases, auto split: option.splits)

lemma handler_ok_failure:
  "handler_ok s (cleanup (node_status st (node_error r s)))"
  unfolding handler_ok_def
  by (intro exI[of _ "NodeError r # Status st # cleanup_effects s"])
     (auto simp: cleanup_eq node_status_def node_error_def emit_def cleanup_effects_def
        ok_resolution_def resolution_def split: option.splits)

lemma handler_ok_success:
  "waitingNode s = Some w \<Longrightarrow>
   handler_ok s (cleanup (node_status st (node_send (Some m) None s)))"
  unfolding handler_ok_def
  by (intro exI[of _ "Send (Some m) None # Status st # cleanup_effects s"])
     (auto simp: cleanup_eq node_status_def node_send_def emit_def cleanup_effects_def
        ok_resolution_def resolution_def split: option.splits)

lemma handler_ok_node_status: "handler_ok s (node_status st s)"
  by (simp add: node_status_def handler_ok_emit_quiet)

lemma handler_ok_node_log: "handler_ok s (node_log l s)"
  by (simp add: node_log_def handler_ok_emit_quiet)

lemma handler_ok_process_line: "handler_ok s (process_line rt line s)"
  unfolding process_line_def
  by (auto simp: handler_ok_refl handler_ok_failure handler_ok_success handler_ok_node_log
      handler_ok_node_status split: option.splits bool.splits)

lemma handler_ok_fold_process_line: "handler_ok s (fold (process_line rt) ls s)"
proof (induction ls arbitrary: s)
  case Nil
  show ?case by (simp add: handler_ok_refl)
next
  case (Cons l ls)
  have "handler_ok s (process_line rt l s)" by (rule handler_ok_process_line)
  moreover have "handler_ok (process_line rt l s) (fold (process_line rt) ls (process_line rt l s))"
    by (rule Cons.IH)
  ultimately show ?case by (auto intro: handler_ok_trans)
qed

lemma handler_ok_ghost:
  "trace s' = trace s \<Longrightarrow> waitingNode s' = waitingNode s \<Longrightarrow> handler_ok s s'"
  by (auto simp: handler_ok_def split: option.splits)

lemma handler_ok_ghost_right:
  "handler_ok s s' \<Longrightarrow> trace s'' = trace s' \<Longrightarrow> waitingNode s'' = waitingNode s' \<Longrightarrow>
   handler_ok s s''"
  by (auto simp: handler_ok_def split: option.splits)

lemma handler_ok_on_stdout_data: "handler_ok s (on_stdout_data rt p buf chunk s)"
proof -
  obtain ls rest where f: "feed buf chunk = (ls, rest)" by (cases "feed buf chunk")
  let ?s1 = "s\<lparr>dataBuffer := (dataBuffer s)(p \<mapsto> rest)\<rparr>"
  have "handler_ok s ?s1" by (rule handler_ok_ghost) simp_all
  moreover have "handler_ok ?s1 (fold (process_line rt) ls ?s1)"
    by (rule handler_ok_fold_process_line)
  ultimately show ?thesis
    using f by (auto simp: on_stdout_data_def intro: handler_ok_trans)
qed

lemma handler_ok_on_close: "handler_ok s (on_close code s)"
proof (cases code)
  case None
  then show ?thesis by (simp add: on_close_def handler_ok_cleanup)
next
  case (Some c)
  then show ?thesis by (simp add: on_close_def handler_ok_cleanup handler_ok_failure)
qed

lemma handler_ok_step:
  assumes "\<not> is_input e"
  shows "handler_ok s (step rt cfg ev e s)"
proof (cases e)
  case (Input m thrown)
  with assms show ?thesis by (simp add: is_input_def)
next
  case (StdoutData p chunk)
  then show ?thesis
    by (simp add: handler_ok_refl handler_ok_on_stdout_data split: option.splits)
next
  case (StderrData p chunk)
  then show ?thesis
    by (simp add: handler_ok_refl on_stderr_data_def node_warn_def handler_ok_emit_quiet
        split: option.splits)
next
  case (ProcClose p code)
  have "handler_ok s ((on_close code s)\<lparr>dataBuffer := (dataBuffer (on_close code s))(p := None)\<rparr>)"
    by (rule handler_ok_ghost_right [OF handler_ok_on_close]) simp_all
  with ProcClose show ?thesis
    by (simp add: handler_ok_refl split: option.splits)
next
  case (ProcError p e')
  then show ?thesis
    by (simp add: handler_ok_refl on_error_def handler_ok_failure split: option.splits)
next
  case (TimerFire t)
  let ?s1 = "s\<lparr>timers := timers s - {t}\<rparr>"
  have "handler_ok s ?s1" by (rule handler_ok_ghost) simp_all
  moreover have "handler_ok ?s1 (timeoutHandler ?s1)" by (rule handler_ok_timeoutHandler)
  ultimately have "handler_ok s (timeoutHandler ?s1)" by (rule handler_ok_trans)
  with TimerFire show ?thesis by (simp add: handler_ok_refl)
next
  case NodeClose
  have "handler_ok (cleanup s) (emit Done (cleanup s))"
    by (rule handler_ok_emit_quiet) simp
  with handler_ok_cleanup [of s] have "handler_ok s (emit Done (cleanup s))"
    by (rule handler_ok_trans)
  with NodeClose show ?thesis by (simp add: on_node_close_def)
next
  case ResetNodeState
  then show ?thesis by (simp add: on_reset_def handler_ok_refl handler_ok_cleanup)
qed

lemma handler_ok_run:
  assumes "\<forall>e \<in> set evs. \<not> is_input e"
  shows "handler_ok s (run rt cfg ev evs s)"
  using assms
proof (induction evs arbitrary: s)
  case Nil
  show ?case by (simp add: run_def handler_ok_refl)
next
  case (Cons e evs)
  have "handler_ok s (step rt cfg ev e s)" using Cons.prems by (simp add: handler_ok_step)
  moreover have "handler_ok (step rt cfg ev e s) (run rt cfg ev evs (step rt cfg ev e s))"
    using Cons.prems by (intro Cons.IH) simp
  ultimately show ?case by (auto simp: run_def intro: handler_ok_trans)
qed


lemma handler_ok_uncaught: "handler_ok s (uncaught s)"
  by (simp add: uncaught_def handler_ok_emit_quiet)

lemma handler_ok_setTimeout: "handler_ok s (setTimeout delay s)"
  unfolding handler_ok_def setTimeout_def emit_def Let_def
  by (intro exI[of _ "[SetTimeout (nextTimer s) delay]"]) (auto split: option.splits)

lemma handler_ok_spawn: "handler_ok s (spawn cmd args s)"
  unfolding handler_ok_def spawn_def emit_def Let_def
  by (intro exI[of _ "[Spawn (nextPid s) cmd args]"]) (auto split: option.splits)

lemma handler_ok_after_timer:
  "handler_ok s3
     (case build_args rt cfg ev of
        None \<Rightarrow> uncaught s3
      | Some args \<Rightarrow>
          (case thrown of
             None \<Rightarrow> spawn (pythonCmd ev) args s3
           | Some e \<Rightarrow> cleanup (node_status StError (node_error (SpawnError e) s3))))"
  by (simp add: handler_ok_uncaught handler_ok_spawn handler_ok_failure split: option.splits)

lemma on_input_from_detecting:
  "handler_ok (node_status StDetecting ((cleanup s)\<lparr>waitingNode := Some m\<rparr>))
     (on_input rt cfg ev m thrown s)"
proof -
  let ?s2 = "node_status StDetecting ((cleanup s)\<lparr>waitingNode := Some m\<rparr>)"
  show ?thesis
  proof (cases "timeout_enabled rt cfg")
    case None
    then show ?thesis by (simp add: on_input_def handler_ok_uncaught)
  next
    case (Some enabled)
    show ?thesis
    proof (cases "if enabled
                    then map_option (\<lambda>delay. setTimeout delay ?s2)
                           (js_mul rt (cfg_timeout cfg) 1000)
                    else Some ?s2")
      case None
      with Some show ?thesis by (simp add: on_input_def handler_ok_uncaught)
    next
      case (Some s3)
      then have "handler_ok ?s2 s3"
        by (auto simp: handler_ok_refl handler_ok_setTimeout split: if_splits)
      moreover note handler_ok_after_timer [where ?s3.0 = s3 and rt = rt and cfg = cfg
          and ev = ev and thrown = thrown]
      ultimately have "handler_ok ?s2
         (case build_args rt cfg ev of
            None \<Rightarrow> uncaught s3
          | Some args \<Rightarrow>
              (case thrown of
                 None \<Rightarrow> spawn (pythonCmd ev) args s3
               | Some e \<Rightarrow> cleanup (node_status StError (node_error (SpawnError e) s3))))"
        by (rule handler_ok_trans)
      with Some \<open>timeout_enabled rt cfg = Some enabled\<close> show ?thesis
        by (simp add: on_input_def)
    qed
  qed
qed

text \<open>The definitions that evaluate a run of the concrete node.\<close>

lemmas demo_defs = effects_since_def run_def init_def
  demo_rt_def demo_cfg_def demo_env_def demo_msg_def demo_parse_def
  on_input_def on_stdout_data_def on_stderr_data_def on_close_def on_error_def
  on_node_close_def on_reset_def timeoutHandler_def process_line_def feed_def
  cleanup_def kill_def clearTimeout_def setTimeout_def spawn_def emit_def
  node_status_def node_error_def node_log_def node_warn_def node_send_def
  js_gt0_def js_mul_def js_div_def js_or_def build_args_def pythonCmd_def
  timeout_enabled_def uncaught_def trim_def is_ws_def NL_def Let_def resolution_def
  is_input_def
  outputMsg_def detection_payload_def timeout_msg_def timeoutOutput_def

subsection \<open>One emission per request\<close>

text \<open>
  C1. Take any trigger, in any state, and any events after it up to the next trigger. The
  effects of the request hold at most one emission, counting both outputs; and when its
  first outcome is a failure they hold none.
\<close>

theorem request_emits_at_most_once:
  assumes "\<forall>e \<in> set evs. \<not> is_input e"
  shows "emissions (request_trace rt cfg ev s m thrown evs) \<le> 1 \<and>
         (\<forall>r. resolution (request_trace rt cfg ev s m thrown evs) = Some (Failure r)
            \<longrightarrow> emissions (request_trace rt cfg ev s m thrown evs) = 0)"
proof -
  let ?s2 = "node_status StDetecting ((cleanup s)\<lparr>waitingNode := Some m\<rparr>)"
  let ?s1 = "on_input rt cfg ev m thrown s"
  let ?sf = "run rt cfg ev evs ?s1"
  let ?a = "cleanup_effects s @ [Status StDetecting]"
  have a: "trace ?s2 = trace s @ ?a"
    by (simp add: cleanup_eq node_status_def emit_def)
  have qa: "outcomes ?a = []" by simp
  have w: "waitingNode ?s2 = Some m" by (simp add: node_status_def emit_def)
  have "handler_ok ?s2 ?s1" by (rule on_input_from_detecting)
  moreover have "handler_ok ?s1 ?sf" using assms by (rule handler_ok_run)
  ultimately have "handler_ok ?s2 ?sf" by (rule handler_ok_trans)
  with w obtain b where b: "trace ?sf = trace ?s2 @ b"
    and cb: "outcomes b = [] \<or> ok_resolution b"
    by (auto simp: handler_ok_def)
  have tr: "request_trace rt cfg ev s m thrown evs = ?a @ b"
    using a b by (simp add: request_trace_def effects_since_def run_def)
  have "ok_resolution (?a @ b)"
    using cb
  proof
    assume "outcomes b = []"
    with qa have q: "outcomes (?a @ b) = []" by (simp only: outcomes_append) simp
    then have "emissions (?a @ b) = 0" by (rule outcomes_Nil_emissions)
    moreover have "resolution (?a @ b) = None" using q by (simp only: resolution_None_iff)
    ultimately show ?thesis by (simp only: ok_resolution_def) simp
  next
    assume "ok_resolution b"
    with qa show ?thesis by (rule ok_resolution_quiet_left)
  qed
  then show ?thesis unfolding tr ok_resolution_def .
qed

theorem request_emits_at_most_once_witness:
  \<open>emissions (request_trace demo_rt (demo_cfg 2) demo_env init demo_msg None
       [StdoutData 0 ''{"status":"ready"}\<newline>'', TimerFire 0, ProcClose 0 None]) = 1
   \<and> resolution (request_trace demo_rt (demo_cfg 2) demo_env init demo_msg None
       [StdoutData 0 ''{"error":"camera not found"}\<newline>'', TimerFire 0])
       = Some (Failure (WorkerError (JStr ''camera not found'')))
   \<and> emissions (request_trace demo_rt (demo_cfg 2) demo_env init demo_msg None
       [StdoutData 0 ''{"error":"camera not found"}\<newline>'', TimerFire 0]) = 0\<close>
proof -
  have h1: \<open>\<forall>e \<in> set [StdoutData 0 ''{"status":"ready"}\<newline>'', TimerFire 0, ProcClose 0 None]. \<not> is_input e\<close>
    by (simp add: is_input_def)
  have h2: \<open>\<forall>e \<in> set [StdoutData 0 ''{"error":"camera not found"}\<newline>'', TimerFire 0]. \<not> is_input e\<close>
    by (simp add: is_input_def)
  show ?thesis
    using request_emits_at_most_once [OF h1, of demo_rt "demo_cfg 2" demo_env init demo_msg None]
      request_emits_at_most_once [OF h2, of demo_rt "demo_cfg 2" demo_env init demo_msg None]
    by (simp add: request_trace_def demo_defs)
qed

subsection \<open>The line demuxer\<close>

lemma split_nl_nonempty [simp]: "split_nl s \<noteq> []"
  by (induction s) (auto split: list.splits)

lemma split_nl_join:
  "concat (map (\<lambda>l. l @ [NL]) (butlast (split_nl s))) @ last (split_nl s) = s"
  by (induction s) (auto split: list.splits)

lemma split_nl_no_newline: "l \<in> set (split_nl s) \<Longrightarrow> NL \<notin> set l"
  by (induction s arbitrary: l) (auto split: list.splits if_splits)

lemma split_nl_no_NL: "NL \<notin> set s \<Longrightarrow> split_nl s = [s]"
  by (induction s) (auto split: list.splits)

lemma split_nl_append:
  "split_nl (a @ b) = butlast (split_nl a) @ split_nl (last (split_nl a) @ b)"
proof (induction a)
  case Nil
  show ?case by simp
next
  case (Cons c cs)
  show ?case
  proof (cases "c = NL")
    case True
    with Cons show ?thesis by simp
  next
    case False
    obtain l ls where sp: "split_nl cs = l # ls"
      by (cases "split_nl cs") simp_all
    show ?thesis
    proof (cases ls)
      case Nil
      with sp Cons False show ?thesis by (simp split: list.splits)
    next
      case (Cons r rs)
      with sp Cons.IH False show ?thesis by (simp split: list.splits)
    qed
  qed
qed

lemma feed_append:
  "feed buf (c1 @ c2) =
     (fst (feed buf c1) @ fst (feed (snd (feed buf c1)) c2), snd (feed (snd (feed buf c1)) c2))"
  using split_nl_append [of "buf @ c1" c2]
  by (simp add: feed_def Let_def butlast_append)


lemma cleanup_dataBuffer_update:
  "cleanup (s\<lparr>dataBuffer := d\<rparr>) = (cleanup s)\<lparr>dataBuffer := d\<rparr>"
  by (simp add: cleanup_eq cleanup_effects_def)

lemma process_line_dataBuffer_update:
  "process_line rt l (s\<lparr>dataBuffer := d\<rparr>) = (process_line rt l s)\<lparr>dataBuffer := d\<rparr>"
  by (simp add: process_line_def cleanup_eq cleanup_effects_def node_log_def node_status_def
      node_error_def node_send_def emit_def split: option.splits bool.splits)

lemma fold_process_line_dataBuffer_update:
  "fold (process_line rt) ls (s\<lparr>dataBuffer := d\<rparr>) = (fold (process_line rt) ls s)\<lparr>dataBuffer := d\<rparr>"
  by (induction ls arbitrary: s) (simp_all add: process_line_dataBuffer_update)

lemma dataBuffer_process_line [simp]: "dataBuffer (process_line rt l s) = dataBuffer s"
  by (simp add: process_line_def cleanup_eq node_log_def node_status_def
      node_error_def node_send_def emit_def split: option.splits bool.splits)

lemma dataBuffer_fold_process_line [simp]:
  "dataBuffer (fold (process_line rt) ls s) = dataBuffer s"
  by (induction ls arbitrary: s) simp_all

lemma on_stdout_data_eq:
  "on_stdout_data rt p buf chunk s =
     (fold (process_line rt) (fst (feed buf chunk)) s)
       \<lparr>dataBuffer := (dataBuffer s)(p \<mapsto> snd (feed buf chunk))\<rparr>"
  by (simp add: on_stdout_data_def split_beta fold_process_line_dataBuffer_update)

lemma on_stdout_data_append:
  "on_stdout_data rt p buf (c1 @ c2) s =
     on_stdout_data rt p (snd (feed buf c1)) c2 (on_stdout_data rt p buf c1 s)"
  by (simp add: on_stdout_data_eq feed_append fold_process_line_dataBuffer_update)

lemma feed_carry_no_newline: "NL \<notin> set (snd (feed buf chunk))"
proof -
  have "last (split_nl (buf @ chunk)) \<in> set (split_nl (buf @ chunk))" by simp
  then have "NL \<notin> set (last (split_nl (buf @ chunk)))" by (rule split_nl_no_newline)
  then show ?thesis by (simp add: feed_def Let_def)
qed

lemma run_chunks:
  assumes "dataBuffer s p = Some buf" and "NL \<notin> set buf"
  shows "run rt cfg ev (map (StdoutData p) cs) s = on_stdout_data rt p buf (concat cs) s"
  using assms
proof (induction cs arbitrary: s buf)
  case Nil
  then have "(dataBuffer s)(p \<mapsto> buf) = dataBuffer s" by (simp add: fun_upd_idem)
  with Nil show ?case
    by (simp add: run_def on_stdout_data_eq feed_def split_nl_no_NL)
next
  case (Cons c cs)
  let ?s1 = "on_stdout_data rt p buf c s"
  have b1: "dataBuffer ?s1 p = Some (snd (feed buf c))" by (simp add: on_stdout_data_eq)
  have "run rt cfg ev (map (StdoutData p) (c # cs)) s = run rt cfg ev (map (StdoutData p) cs) ?s1"
    using Cons.prems by (simp add: run_def)
  also have "\<dots> = on_stdout_data rt p (snd (feed buf c)) (concat cs) ?s1"
    using b1 feed_carry_no_newline by (rule Cons.IH)
  also have "\<dots> = on_stdout_data rt p buf (concat (c # cs)) s"
    by (simp add: on_stdout_data_append)
  finally show ?case .
qed

text \<open>
  C4. The \<^verbatim>\<open>stdout\<close> handler appends the chunk to the buffer of the child, splits the
  buffer at newlines, handles every fragment but the last as a line, in order, and keeps
  the last fragment as the new buffer: lines and buffer, each line followed by a newline,
  spell the old buffer and the chunk, and no fragment holds a newline. Feeding chunks one
  by one is feeding their concatenation at once. So \<^verbatim>\<open>{"status":"re\<close> followed by
  \<^verbatim>\<open>ady"}\<close> and a newline gives one \<open>ready\<close> status, no logged line and an empty buffer.
\<close>

theorem line_demuxer:
  assumes "dataBuffer s p = Some buf"
  shows \<open>step rt cfg ev (StdoutData p chunk) s =
           fold (process_line rt) (butlast (split_nl (buf @ chunk)))
             (s\<lparr>dataBuffer := (dataBuffer s)(p \<mapsto> last (split_nl (buf @ chunk)))\<rparr>)
         \<and> dataBuffer (step rt cfg ev (StdoutData p chunk) s) p = Some (last (split_nl (buf @ chunk)))
         \<and> concat (map (\<lambda>l. l @ [NL]) (butlast (split_nl (buf @ chunk)))) @ last (split_nl (buf @ chunk))
             = buf @ chunk
         \<and> (\<forall>l \<in> set (split_nl (buf @ chunk)). NL \<notin> set l)
         \<and> (NL \<notin> set buf \<longrightarrow>
              run rt cfg ev (map (StdoutData p) chunks) s
                = step rt cfg ev (StdoutData p (concat chunks)) s)
         \<and> (buf = [] \<and> JSON_parse rt ''{"status":"ready"}'' = Some (JObj [(''status'', JStr ''ready'')]) \<longrightarrow>
              effects_since s (run rt cfg ev
                 [StdoutData p ''{"status":"re'', StdoutData p ''ady"}\<newline>''] s) = [Status StReady]
              \<and> dataBuffer (run rt cfg ev
                 [StdoutData p ''{"status":"re'', StdoutData p ''ady"}\<newline>''] s) p = Some [])\<close>
proof (intro conjI impI ballI)
  show "step rt cfg ev (StdoutData p chunk) s =
           fold (process_line rt) (butlast (split_nl (buf @ chunk)))
             (s\<lparr>dataBuffer := (dataBuffer s)(p \<mapsto> last (split_nl (buf @ chunk)))\<rparr>)"
    using assms by (simp add: on_stdout_data_def feed_def Let_def)
  show "dataBuffer (step rt cfg ev (StdoutData p chunk) s) p = Some (last (split_nl (buf @ chunk)))"
    using assms by (simp add: on_stdout_data_eq feed_def Let_def)
  show "concat (map (\<lambda>l. l @ [NL]) (butlast (split_nl (buf @ chunk)))) @ last (split_nl (buf @ chunk))
             = buf @ chunk"
    by (rule split_nl_join)
  show "NL \<notin> set l" if "l \<in> set (split_nl (buf @ chunk))" for l
    using that by (rule split_nl_no_newline)
  show "run rt cfg ev (map (StdoutData p) chunks) s = step rt cfg ev (StdoutData p (concat chunks)) s"
    if "NL \<notin> set buf"
    using run_chunks [OF assms that] assms by simp
next
  assume h: \<open>buf = [] \<and> JSON_parse rt ''{"status":"ready"}'' = Some (JObj [(''status'', JStr ''ready'')])\<close>
  have r: \<open>run rt cfg ev [StdoutData p ''{"status":"re'', StdoutData p ''ady"}\<newline>''] s
      = (node_status StReady s)\<lparr>dataBuffer := (dataBuffer s)(p \<mapsto> [])\<rparr>\<close>
    using assms h
    by (simp add: run_def on_stdout_data_eq feed_def NL_def process_line_def trim_def is_ws_def
        node_status_def emit_def)
  show \<open>effects_since s (run rt cfg ev
                 [StdoutData p ''{"status":"re'', StdoutData p ''ady"}\<newline>''] s) = [Status StReady]\<close>
    unfolding r by (simp add: effects_since_def node_status_def emit_def)
  show \<open>dataBuffer (run rt cfg ev
                 [StdoutData p ''{"status":"re'', StdoutData p ''ady"}\<newline>''] s) p = Some []\<close>
    unfolding r by simp
qed

theorem line_demuxer_witness:
  \<open>dataBuffer demo_detecting 0 = Some []
   \<and> effects_since demo_detecting (run demo_rt (demo_cfg 2) demo_env
         [StdoutData 0 ''{"status":"re'', StdoutData 0 ''ady"}\<newline>''] demo_detecting) = [Status StReady]
   \<and> dataBuffer (step demo_rt (demo_cfg 2) demo_env (StdoutData 0 ''{"status":"re'') demo_detecting) 0
       = Some ''{"status":"re''\<close>
proof -
  have h: "dataBuffer demo_detecting 0 = Some []"
    by (simp add: demo_detecting_def demo_defs)
  have p: \<open>JSON_parse demo_rt ''{"status":"ready"}'' = Some (JObj [(''status'', JStr ''ready'')])\<close>
    by (simp add: demo_rt_def demo_parse_def)
  have l: \<open>last (split_nl ([] @ ''{"status":"re'')) = ''{"status":"re''\<close>
    by (simp add: NL_def)
  show ?thesis
    using line_demuxer [OF h, of demo_rt "demo_cfg 2" demo_env \<open>''{"status":"re''\<close> "[]"] h p
    unfolding l by blast
qed

lemma effects_since_append [simp]: "effects_since s (s'\<lparr>trace := trace s @ es\<rparr>) = es"
  by (simp add: effects_since_def)

lemma effects_since_cleanup: "effects_since s (cleanup s) = cleanup_effects s"
  by (simp add: cleanup_eq effects_since_def)

subsection \<open>Teardown\<close>

text \<open>
  C9. \<^verbatim>\<open>cleanup\<close> in any state, whatever has become of the child and the timer, leaves the
  worker handle, the timer handle and the request slot cleared, emits on no output and
  reports no error. Run again it changes nothing but to reset the status once more; with
  the handles already cleared it only clears the slot and resets the status.
\<close>

theorem cleanup_idempotent:
  "pythonProcess (cleanup s) = None \<and> timeoutId (cleanup s) = None \<and> waitingNode (cleanup s) = None
   \<and> emissions (effects_since s (cleanup s)) = 0
   \<and> outcomes (effects_since s (cleanup s)) = []
   \<and> cleanup (cleanup s) = (cleanup s)\<lparr>trace := trace (cleanup s) @ [Status StIdle]\<rparr>
   \<and> (pythonProcess s = None \<and> timeoutId s = None \<longrightarrow>
        cleanup s = s\<lparr>waitingNode := None, trace := trace s @ [Status StIdle]\<rparr>)"
  by (simp add: effects_since_cleanup) (simp add: cleanup_eq cleanup_effects_def)

theorem cleanup_idempotent_witness:
  "cleanup init = init\<lparr>trace := [Status StIdle]\<rparr>
   \<and> cleanup (cleanup init) = init\<lparr>trace := [Status StIdle, Status StIdle]\<rparr>"
proof -
  have h: "pythonProcess init = None \<and> timeoutId init = None" by (simp add: init_def)
  from cleanup_idempotent [of init] h
  have a: "cleanup init = init\<lparr>waitingNode := None, trace := trace init @ [Status StIdle]\<rparr>"
    and b: "cleanup (cleanup init) = (cleanup init)\<lparr>trace := trace (cleanup init) @ [Status StIdle]\<rparr>"
    by blast+
  from a have a': "cleanup init = init\<lparr>trace := [Status StIdle]\<rparr>" by (simp add: init_def)
  from b show ?thesis unfolding a' by (simp add: init_def)
qed

subsection \<open>The exit of the child\<close>

text \<open>
  C7. The \<open>close\<close> event of a child with an exit code that is neither 0 nor \<open>null\<close>
  reports the error, sets the error status and runs \<^verbatim>\<open>cleanup\<close>, with no emission: the
  first outcome is the failure. With code 0 the handler only runs \<^verbatim>\<open>cleanup\<close>; after a
  resolution, when handles and slot are cleared, that resets the status and nothing else
  (the handlers of the closed child are unbound).
\<close>

theorem close_handling:
  assumes "dataBuffer s p = Some buf"
  shows "(c \<noteq> 0 \<longrightarrow>
            effects_since s (step rt cfg ev (ProcClose p (Some c)) s)
              = NodeError (ExitCode c) # Status StError # cleanup_effects s
          \<and> resolution (effects_since s (step rt cfg ev (ProcClose p (Some c)) s))
              = Some (Failure (ExitCode c))
          \<and> emissions (effects_since s (step rt cfg ev (ProcClose p (Some c)) s)) = 0
          \<and> waitingNode (step rt cfg ev (ProcClose p (Some c)) s) = None
          \<and> pythonProcess (step rt cfg ev (ProcClose p (Some c)) s) = None
          \<and> timeoutId (step rt cfg ev (ProcClose p (Some c)) s) = None)
       \<and> effects_since s (step rt cfg ev (ProcClose p (Some 0)) s) = cleanup_effects s
       \<and> (waitingNode s = None \<and> pythonProcess s = None \<and> timeoutId s = None \<longrightarrow>
            step rt cfg ev (ProcClose p (Some 0)) s
              = s\<lparr>dataBuffer := (dataBuffer s)(p := None), trace := trace s @ [Status StIdle]\<rparr>)"
  using assms
  by (simp add: on_close_def cleanup_eq node_status_def node_error_def emit_def
      effects_since_def resolution_def cleanup_effects_def split: option.splits)


theorem close_handling_witness:
  "effects_since demo_detecting (step demo_rt (demo_cfg 2) demo_env (ProcClose 0 (Some 1)) demo_detecting)
     = [NodeError (ExitCode 1), Status StError, Kill 0, ClearTimeout 0, Status StIdle]
   \<and> resolution (effects_since demo_detecting
         (step demo_rt (demo_cfg 2) demo_env (ProcClose 0 (Some 1)) demo_detecting))
       = Some (Failure (ExitCode 1))"
proof -
  have h: "dataBuffer demo_detecting 0 = Some []"
    by (simp add: demo_detecting_def demo_defs)
  have c: "cleanup_effects demo_detecting = [Kill 0, ClearTimeout 0, Status StIdle]"
    by (simp add: cleanup_effects_def demo_detecting_def demo_defs)
  have nz: "(1::int) \<noteq> 0" by simp
  from close_handling [OF h, of 1 demo_rt "demo_cfg 2" demo_env] nz
  have "effects_since demo_detecting (step demo_rt (demo_cfg 2) demo_env (ProcClose 0 (Some 1)) demo_detecting)
     = NodeError (ExitCode 1) # Status StError # cleanup_effects demo_detecting
   \<and> resolution (effects_since demo_detecting
         (step demo_rt (demo_cfg 2) demo_env (ProcClose 0 (Some 1)) demo_detecting))
       = Some (Failure (ExitCode 1))"
    by blast
  then show ?thesis unfolding c .
qed

subsection \<open>The timer\<close>






subsection \<open>Lines of the worker\<close>

lemma split_nl_line: "NL \<notin> set line \<Longrightarrow> split_nl (line @ [NL]) = [line, []]"
  by (induction line) auto

lemma stdout_one_line:
  assumes "dataBuffer s p = Some []" and "NL \<notin> set line"
  shows "step rt cfg ev (StdoutData p (line @ [NL])) s = process_line rt line s"
proof -
  have "(dataBuffer s)(p \<mapsto> []) = dataBuffer s" using assms(1) by (simp add: fun_upd_idem)
  then show ?thesis
    using assms by (simp add: on_stdout_data_def feed_def split_nl_line)
qed

lemma process_line_error:
  assumes "JSON_parse rt line = Some res" and "truthy (property res ''error'')"
    and "trim line \<noteq> []"
  shows "process_line rt line s =
           s\<lparr>pythonProcess := None, waitingNode := None, timeoutId := None,
             timers := timers s - set_option (timeoutId s),
             trace := trace s @ NodeError (WorkerError (property res ''error'')) # Status StError
                        # cleanup_effects s\<rparr>"
proof -
  have "res \<noteq> JNull" "res \<noteq> JUndefined" using assms(2) by auto
  with assms show ?thesis
    by (simp add: process_line_def cleanup_eq node_status_def node_error_def emit_def
        cleanup_effects_def)
qed

text \<open>
  C6, as the code has it. A line that decodes to a message whose \<open>error\<close> property is a
  non-empty string is terminal: the reason is reported, the error status is set, no output
  emits, and \<^verbatim>\<open>cleanup\<close> clears worker, timer and slot. The test is the truthiness of
  \<^verbatim>\<open>result.error\<close>: a message whose reason is the empty string is not an error to the
  node and, carrying no status, changes nothing.
\<close>

theorem error_line_terminal:
  assumes "dataBuffer s p = Some []" and "NL \<notin> set line" and "trim line \<noteq> []"
    and "JSON_parse rt line = Some res" and "property res ''error'' = JStr reason"
  shows "(reason \<noteq> [] \<longrightarrow>
            effects_since s (step rt cfg ev (StdoutData p (line @ [NL])) s)
              = NodeError (WorkerError (JStr reason)) # Status StError # cleanup_effects s
          \<and> resolution (effects_since s (step rt cfg ev (StdoutData p (line @ [NL])) s))
              = Some (Failure (WorkerError (JStr reason)))
          \<and> emissions (effects_since s (step rt cfg ev (StdoutData p (line @ [NL])) s)) = 0
          \<and> waitingNode (step rt cfg ev (StdoutData p (line @ [NL])) s) = None
          \<and> pythonProcess (step rt cfg ev (StdoutData p (line @ [NL])) s) = None
          \<and> timeoutId (step rt cfg ev (StdoutData p (line @ [NL])) s) = None
          \<and> timers (step rt cfg ev (StdoutData p (line @ [NL])) s)
              = timers s - set_option (timeoutId s))
       \<and> (reason = [] \<and> property res ''status'' = JUndefined \<longrightarrow>
            step rt cfg ev (StdoutData p (line @ [NL])) s = s)"
proof (intro conjI impI)
  assume r: "reason \<noteq> []"
  then have t: "truthy (property res ''error'')" using assms(5) by simp
  note e = process_line_error [OF assms(4) t assms(3), of s]
  note st = stdout_one_line [OF assms(1,2), of rt cfg ev]
  show "effects_since s (step rt cfg ev (StdoutData p (line @ [NL])) s)
              = NodeError (WorkerError (JStr reason)) # Status StError # cleanup_effects s"
    unfolding st e by (simp add: assms(5))
  then show "resolution (effects_since s (step rt cfg ev (StdoutData p (line @ [NL])) s))
              = Some (Failure (WorkerError (JStr reason)))"
    by (simp add: resolution_def)
  show "emissions (effects_since s (step rt cfg ev (StdoutData p (line @ [NL])) s)) = 0"
    unfolding st e by simp
  show "waitingNode (step rt cfg ev (StdoutData p (line @ [NL])) s) = None"
    unfolding st e by simp
  show "pythonProcess (step rt cfg ev (StdoutData p (line @ [NL])) s) = None"
    unfolding st e by simp
  show "timeoutId (step rt cfg ev (StdoutData p (line @ [NL])) s) = None"
    unfolding st e by simp
  show "timers (step rt cfg ev (StdoutData p (line @ [NL])) s) = timers s - set_option (timeoutId s)"
    unfolding st e by simp
next
  assume r: "reason = [] \<and> property res ''status'' = JUndefined"
  have "res \<noteq> JNull" "res \<noteq> JUndefined" using assms(5) by auto
  with r assms(3,4,5) have "process_line rt line s = s"
    by (simp add: process_line_def)
  then show "step rt cfg ev (StdoutData p (line @ [NL])) s = s"
    unfolding stdout_one_line [OF assms(1,2)] .
qed

theorem error_line_terminal_witness:
  \<open>effects_since demo_detecting
      (step demo_rt (demo_cfg 2) demo_env (StdoutData 0 ''{"error":"camera not found"}\<newline>'') demo_detecting)
     = [NodeError (WorkerError (JStr ''camera not found'')), Status StError,
        Kill 0, ClearTimeout 0, Status StIdle]
   \<and> waitingNode (step demo_rt (demo_cfg 2) demo_env
        (StdoutData 0 ''{"error":"camera not found"}\<newline>'') demo_detecting) = None\<close>
proof -
  have h: "dataBuffer demo_detecting 0 = Some []"
    by (simp add: demo_detecting_def demo_defs)
  have n: \<open>NL \<notin> set ''{"error":"camera not found"}''\<close> by (simp add: NL_def)
  have t: \<open>trim ''{"error":"camera not found"}'' \<noteq> []\<close> by (simp add: trim_def is_ws_def)
  have p: \<open>JSON_parse demo_rt ''{"error":"camera not found"}''
      = Some (JObj [(''error'', JStr ''camera not found'')])\<close>
    by (simp add: demo_rt_def demo_parse_def)
  have e: "property (JObj [(''error'', JStr ''camera not found'')]) ''error'' = JStr ''camera not found''"
    by simp
  have ne: "''camera not found'' \<noteq> []" by simp
  have c: "cleanup_effects demo_detecting = [Kill 0, ClearTimeout 0, Status StIdle]"
    by (simp add: cleanup_effects_def demo_detecting_def demo_defs)
  have l: \<open>''{"error":"camera not found"}'' @ [NL] = ''{"error":"camera not found"}\<newline>''\<close>
    by (simp add: NL_def)
  from error_line_terminal [OF h n t p e, where cfg = "demo_cfg 2" and ev = demo_env] ne
  show ?thesis unfolding c l by blast
qed

text \<open>
  C6 as stated fails for the empty reason: the line \<^verbatim>\<open>{"error":""}\<close> reaches a node
  that waits for a detection and leaves it as it was, unresolved.
\<close>

theorem empty_reason_counterexample:
  \<open>JSON_parse demo_rt ''{"error":""}'' = Some (JObj [(''error'', JStr [])])
   \<and> waitingNode demo_detecting = Some demo_msg
   \<and> step demo_rt (demo_cfg 2) demo_env (StdoutData 0 ''{"error":""}\<newline>'') demo_detecting
       = demo_detecting
   \<and> resolution (effects_since demo_detecting
        (step demo_rt (demo_cfg 2) demo_env (StdoutData 0 ''{"error":""}\<newline>'') demo_detecting))
       = None\<close>
proof -
  have s: \<open>step demo_rt (demo_cfg 2) demo_env (StdoutData 0 ''{"error":""}\<newline>'') demo_detecting
       = demo_detecting\<close>
    by (simp add: demo_detecting_def demo_defs)
  show ?thesis unfolding s
    by (simp add: effects_since_def resolution_def demo_rt_def demo_parse_def)
       (simp add: demo_detecting_def demo_defs)
qed


lemma process_line_chan1:
  assumes "e \<in> set (effects_since s (process_line rt l s))" and "chan1 e"
  shows "\<exists>r w. JSON_parse rt l = Some r \<and> property r ''status'' = JStr ''detected''
           \<and> js_gt0 rt (property r ''count'') = Some True \<and> waitingNode s = Some w
           \<and> e = Send (Some (outputMsg w r)) None"
  using assms
  by (auto simp: process_line_def effects_since_def cleanup_eq node_log_def node_status_def
      node_error_def node_send_def emit_def cleanup_effects_def
      split: if_splits option.splits bool.splits)

text \<open>
  C8. A line that decodes to a \<open>detected\<close> message with count 0 (and no error) changes
  nothing: the request stays unresolved, the worker and the timer stay. With a positive
  count and a request waiting, the message is sent on output 1 with the context of the
  request and \<^verbatim>\<open>cleanup\<close> runs. No line puts a message on output 1 otherwise.
\<close>

theorem zero_count_suppressed:
  assumes "dataBuffer s p = Some []" and "NL \<notin> set line" and "trim line \<noteq> []"
    and "JSON_parse rt line = Some res"
    and "\<not> truthy (property res ''error'')"
    and "property res ''status'' = JStr ''detected''"
    and "property res ''count'' = JNum n"
  shows "(n = 0 \<longrightarrow> step rt cfg ev (StdoutData p (line @ [NL])) s = s)
       \<and> (\<forall>w. 0 < n \<and> waitingNode s = Some w \<longrightarrow>
            effects_since s (step rt cfg ev (StdoutData p (line @ [NL])) s)
              = Send (Some (outputMsg w res)) None # Status (StDetected (JNum n))
                  # cleanup_effects s
          \<and> resolution (effects_since s (step rt cfg ev (StdoutData p (line @ [NL])) s))
              = Some (Success (outputMsg w res))
          \<and> waitingNode (step rt cfg ev (StdoutData p (line @ [NL])) s) = None)
       \<and> (\<forall>l e. e \<in> set (effects_since s (process_line rt l s)) \<and> chan1 e \<longrightarrow>
            (\<exists>r w. JSON_parse rt l = Some r \<and> property r ''status'' = JStr ''detected''
               \<and> js_gt0 rt (property r ''count'') = Some True \<and> waitingNode s = Some w
               \<and> e = Send (Some (outputMsg w r)) None))"
proof (intro conjI impI allI)
  note st = stdout_one_line [OF assms(1,2), of rt cfg ev]
  have nu: "res \<noteq> JUndefined" "res \<noteq> JNull" using assms(6) by auto
  {
    assume "n = 0"
    with assms nu have "process_line rt line s = s"
      by (simp add: process_line_def js_gt0_def)
    then show "step rt cfg ev (StdoutData p (line @ [NL])) s = s" unfolding st .
  }
  {
    fix w assume a: "0 < n \<and> waitingNode s = Some w"
    with assms nu have pl: "process_line rt line s =
        s\<lparr>pythonProcess := None, waitingNode := None, timeoutId := None,
          timers := timers s - set_option (timeoutId s),
          trace := trace s @ Send (Some (outputMsg w res)) None # Status (StDetected (JNum n))
                     # cleanup_effects s\<rparr>"
      by (simp add: process_line_def js_gt0_def cleanup_eq node_status_def node_send_def emit_def
          cleanup_effects_def)
    show e: "effects_since s (step rt cfg ev (StdoutData p (line @ [NL])) s)
              = Send (Some (outputMsg w res)) None # Status (StDetected (JNum n))
                  # cleanup_effects s"
      unfolding st pl by simp
    show "resolution (effects_since s (step rt cfg ev (StdoutData p (line @ [NL])) s))
              = Some (Success (outputMsg w res))"
      unfolding e by (simp add: resolution_def)
    show "waitingNode (step rt cfg ev (StdoutData p (line @ [NL])) s) = None"
      unfolding st pl by simp
  }
  {
    fix l e
    assume "e \<in> set (effects_since s (process_line rt l s)) \<and> chan1 e"
    then show "\<exists>r w. JSON_parse rt l = Some r \<and> property r ''status'' = JStr ''detected''
               \<and> js_gt0 rt (property r ''count'') = Some True \<and> waitingNode s = Some w
               \<and> e = Send (Some (outputMsg w r)) None"
      using process_line_chan1 by blast
  }
qed

theorem zero_count_suppressed_witness:
  \<open>step demo_rt (demo_cfg 2) demo_env
      (StdoutData 0 ''{"status":"detected","count":0,"humans":[],"timestamp":"2025-01-01T00:00:00Z"}\<newline>'')
      demo_detecting = demo_detecting
   \<and> waitingNode demo_detecting = Some demo_msg\<close>
proof -
  let ?line = \<open>''{"status":"detected","count":0,"humans":[],"timestamp":"2025-01-01T00:00:00Z"}''\<close>
  let ?res = "JObj [(''status'', JStr ''detected''), (''count'', JNum 0),
               (''humans'', JArr []), (''timestamp'', JStr ''2025-01-01T00:00:00Z'')]"
  have h: "dataBuffer demo_detecting 0 = Some []"
    by (simp add: demo_detecting_def demo_defs)
  have w: "waitingNode demo_detecting = Some demo_msg"
    by (simp add: demo_detecting_def demo_defs)
  have n: "NL \<notin> set ?line" by (simp add: NL_def)
  have t: "trim ?line \<noteq> []" by (simp add: trim_def is_ws_def)
  have p: "JSON_parse demo_rt ?line = Some ?res"
    by (simp add: demo_rt_def demo_parse_def)
  have e: "\<not> truthy (property ?res ''error'')" by simp
  have st: "property ?res ''status'' = JStr ''detected''" by simp
  have c: "property ?res ''count'' = JNum 0" by simp
  have l: \<open>?line @ [NL]
      = ''{"status":"detected","count":0,"humans":[],"timestamp":"2025-01-01T00:00:00Z"}\<newline>''\<close>
    by (simp add: NL_def)
  from zero_count_suppressed [OF h n t p e st c, where cfg = "demo_cfg 2" and ev = demo_env] w
  show ?thesis unfolding l by blast
qed

subsection \<open>The arguments of the worker\<close>

lemma timeout_enabled_delay:
  "timeout_enabled rt cfg = Some True \<Longrightarrow> \<exists>delay. js_mul rt (cfg_timeout cfg) 1000 = Some delay"
  by (auto simp: timeout_enabled_def js_gt0_def js_mul_def
      split: if_splits option.splits number.splits)

lemma on_input_spawns:
  assumes "timeout_enabled rt cfg \<noteq> None" and "build_args rt cfg ev = Some args"
  shows "Spawn (nextPid s) (pythonCmd ev) args
           \<in> set (effects_since s (on_input rt cfg ev m None s))"
proof -
  from assms(1) obtain enabled where en: "timeout_enabled rt cfg = Some enabled" by auto
  show ?thesis
  proof (cases enabled)
    case True
    with en have "timeout_enabled rt cfg = Some True" by simp
    then obtain delay where "js_mul rt (cfg_timeout cfg) 1000 = Some delay"
      using timeout_enabled_delay by blast
    with en True assms(2) show ?thesis
      by (simp add: on_input_def cleanup_eq node_status_def emit_def spawn_def setTimeout_def
          effects_since_def Let_def)
  next
    case False
    with en assms(2) show ?thesis
      by (simp add: on_input_def cleanup_eq node_status_def emit_def spawn_def
          effects_since_def Let_def)
  qed
qed

text \<open>
  C10, as the code has it. With a confidence that is the number 0, or absent, the argument
  after \<open>--confidence\<close> is 0.5 and not 0. A confidence of 0 can be configured all the
  same: a non-empty string that converts to 0 is truthy, and the argument is 0. An absent
  method gives \<open>mobilenet\<close>, an absent camera \<open>0\<close>. These are the arguments that
  \<^verbatim>\<open>spawn\<close> receives when the timeout test does not throw. (0.5 and 0 are doubles.)
\<close>

theorem default_arguments:
  assumes "RoundDouble rt (1 / 2) = NFin (1 / 2)" and "RoundDouble rt 0 = NFin 0"
  shows "(cfg_confidence cfg = JNum 0 \<or> cfg_confidence cfg = JUndefined \<longrightarrow>
            (\<exists>args. build_args rt cfg ev = Some args
               \<and> args ! 3 = JStr ''--confidence'' \<and> args ! 4 = JNum (1 / 2)))
       \<and> (\<forall>str. cfg_confidence cfg = JStr str \<and> str \<noteq> [] \<and> StringToNumber rt str = NFin 0 \<longrightarrow>
            (\<exists>args. build_args rt cfg ev = Some args
               \<and> args ! 3 = JStr ''--confidence'' \<and> args ! 4 = JNum 0))
       \<and> (\<forall>args. build_args rt cfg ev = Some args \<longrightarrow>
            (cfg_method cfg = JUndefined \<longrightarrow>
               args ! 1 = JStr ''--method'' \<and> args ! 2 = JStr ''mobilenet'')
          \<and> (cfg_camera cfg = JUndefined \<longrightarrow>
               args ! 5 = JStr ''--camera'' \<and> args ! 6 = JStr ''0'')
          \<and> (timeout_enabled rt cfg \<noteq> None \<longrightarrow>
               Spawn (nextPid s) (pythonCmd ev) args
                 \<in> set (effects_since s (step rt cfg ev (Input m None) s))))"
proof (intro conjI allI impI)
  assume "cfg_confidence cfg = JNum 0 \<or> cfg_confidence cfg = JUndefined"
  then show "\<exists>args. build_args rt cfg ev = Some args
               \<and> args ! 3 = JStr ''--confidence'' \<and> args ! 4 = JNum (1 / 2)"
    using assms(1) by (auto simp: build_args_def js_or_def js_div_def)
next
  fix str
  assume "cfg_confidence cfg = JStr str \<and> str \<noteq> [] \<and> StringToNumber rt str = NFin 0"
  then show "\<exists>args. build_args rt cfg ev = Some args
               \<and> args ! 3 = JStr ''--confidence'' \<and> args ! 4 = JNum 0"
    using assms(2) by (auto simp: build_args_def js_or_def js_div_def)
next
  fix args
  assume a: "build_args rt cfg ev = Some args"
  {
    assume "cfg_method cfg = JUndefined"
    with a show "args ! 1 = JStr ''--method''" and "args ! 2 = JStr ''mobilenet''"
      by (auto simp: build_args_def js_or_def split: option.splits)
  }
  {
    assume "cfg_camera cfg = JUndefined"
    with a show "args ! 5 = JStr ''--camera''" and "args ! 6 = JStr ''0''"
      by (auto simp: build_args_def js_or_def split: option.splits)
  }
  {
    assume "timeout_enabled rt cfg \<noteq> None"
    from on_input_spawns [OF this a]
    show "Spawn (nextPid s) (pythonCmd ev) args
            \<in> set (effects_since s (step rt cfg ev (Input m None) s))"
      by simp
  }
qed

theorem default_arguments_witness:
  "build_args demo_rt ((demo_cfg 2)\<lparr>cfg_confidence := JNum 0, cfg_method := JUndefined,
       cfg_camera := JUndefined\<rparr>) demo_env
     = Some [JStr ''/node/detect_human.py'', JStr ''--method'', JStr ''mobilenet'',
        JStr ''--confidence'', JNum (1 / 2), JStr ''--camera'', JStr ''0'',
        JStr ''--no-display'']"
proof -
  let ?cfg = "(demo_cfg 2)\<lparr>cfg_confidence := JNum 0, cfg_method := JUndefined,
       cfg_camera := JUndefined\<rparr>"
  have r: "RoundDouble demo_rt (1 / 2) = NFin (1 / 2)" "RoundDouble demo_rt 0 = NFin 0"
    by (simp_all add: demo_rt_def)
  have h: "cfg_confidence ?cfg = JNum 0 \<or> cfg_confidence ?cfg = JUndefined" by simp
  from default_arguments [OF r, of ?cfg demo_env] h
  obtain args where a: "build_args demo_rt ?cfg demo_env = Some args"
    and "args ! 4 = JNum (1 / 2)" by blast
  have "build_args demo_rt ?cfg demo_env
     = Some [JStr ''/node/detect_human.py'', JStr ''--method'', JStr ''mobilenet'',
        JStr ''--confidence'', JNum (1 / 2), JStr ''--camera'', JStr ''0'',
        JStr ''--no-display'']"
    by (simp add: demo_defs)
  with a show ?thesis by simp
qed

text \<open>
  C10 as stated fails in its last part: a confidence of exactly 0 is configured by the
  string \<open>0\<close>, which is what a text field of the editor holds. It is truthy, the default
  does not replace it, and the worker gets \<open>--confidence 0\<close>.
\<close>

theorem string_zero_counterexample:
  "build_args demo_rt ((demo_cfg 2)\<lparr>cfg_confidence := JStr ''0''\<rparr>) demo_env
     = Some [JStr ''/node/detect_human.py'', JStr ''--method'', JStr ''hog'',
        JStr ''--confidence'', JNum 0, JStr ''--camera'', JStr ''0'',
        JStr ''--no-display'']"
  by (simp add: demo_defs)

subsection \<open>One resolution per request\<close>

lemma handler_ok_effects: "handler_ok s s' \<Longrightarrow> trace s' = trace s @ effects_since s s'"
  by (auto simp: handler_ok_def effects_since_def)


lemma effects_since_self [simp]: "effects_since s s = []"
  by (simp add: effects_since_def)










subsection \<open>Supersession\<close>

text \<open>
  C2 does not hold of the code, by a defect. A second trigger runs \<^verbatim>\<open>cleanup\<close>, which
  kills worker 0 and clears its timer, and then binds worker 1 and arms timer 1 for the new
  message. But the \<open>stdout\<close> and \<open>close\<close> handlers of worker 0 stay bound and act on the
  shared variables, which now belong to the new request. A \<open>detected\<close> line that worker 0
  still delivers is sent on output 1 with the context of the new message and resolves the
  new request. The \<open>close\<close> event of the killed worker 0, with code \<open>null\<close>, runs
  \<^verbatim>\<open>cleanup\<close>: it kills worker 1, clears timer 1 and empties the slot, so that the new
  request ends with no outcome.
\<close>

theorem stale_events_reach_new_request:
  \<open>Kill 0 \<in> set (trace demo_superseded)
   \<and> ClearTimeout 0 \<in> set (trace demo_superseded)
   \<and> pythonProcess demo_superseded = Some 1
   \<and> waitingNode demo_superseded = Some demo_msg2
   \<and> timeoutId demo_superseded = Some 1
   \<and> timers demo_superseded = {1}
   \<and> resolution (effects_since demo_superseded
        (step demo_rt (demo_cfg 2) demo_env
           (StdoutData 0 ''{"status":"detected","count":1,"humans":[{"id":0,"bbox":{"x":10,"y":20,"width":30,"height":40},"confidence":0.9}],"timestamp":"2025-01-01T00:00:00Z"}\<newline>'')
           demo_superseded))
       = Some (Success [(''_msgid'', JStr ''b2''),
            (''payload'', JObj [(''count'', JNum 1),
               (''humans'', JArr [JObj [(''id'', JNum 0),
                  (''bbox'', JObj [(''x'', JNum 10), (''y'', JNum 20),
                                   (''width'', JNum 30), (''height'', JNum 40)]),
                  (''confidence'', JNum (8106479329266893 / 9007199254740992))]]),
               (''timestamp'', JStr ''2025-01-01T00:00:00Z'')])])
   \<and> effects_since demo_superseded
        (step demo_rt (demo_cfg 2) demo_env (ProcClose 0 None) demo_superseded)
       = [Kill 1, ClearTimeout 1, Status StIdle]
   \<and> waitingNode (step demo_rt (demo_cfg 2) demo_env (ProcClose 0 None) demo_superseded) = None
   \<and> pythonProcess (step demo_rt (demo_cfg 2) demo_env (ProcClose 0 None) demo_superseded) = None
   \<and> timers (step demo_rt (demo_cfg 2) demo_env (ProcClose 0 None) demo_superseded) = {}
   \<and> outcomes (effects_since demo_superseded
        (step demo_rt (demo_cfg 2) demo_env (ProcClose 0 None) demo_superseded)) = []\<close>
  by (simp add: demo_superseded_def demo_msg2_def demo_defs)

end
